theory Spec2Isabelle
  imports Main "HOL-Library.AList"
begin

section \<open>Python exceptions as values\<close>

text \<open>
  Every exception the modelled functions can raise is a value of \<open>py_error\<close>; a function
  that can raise returns \<open>py_error + 'a\<close>, with \<open>Inl\<close> for the raised exception.
  \<open>PickleError\<close> stands for \<open>pickle.PickleError\<close> and its subclasses.
\<close>

datatype py_error =
    ValueError string
  | KeyError string
  | AttributeError string
  | IndexError
  | TypeError string
  | PickleError
  | RecursionError

section \<open>utilities/parsing.py: string to bool\<close>

text \<open>
  A Python \<open>str\<close> is modelled as a \<open>string\<close> whose characters are the code points below
  256. On these, \<open>str.lower\<close> maps \<open>A\<close>..\<open>Z\<close> and the Latin-1 capitals
  (code points 192..214 and 216..222) to the code point 32 above, and leaves every other
  character as it is.
\<close>

definition lower_char :: "char \<Rightarrow> char" where
  "lower_char c =
     (let n = (of_char c :: nat)
      in if (65 \<le> n \<and> n \<le> 90) \<or> (192 \<le> n \<and> n \<le> 214) \<or> (216 \<le> n \<and> n \<le> 222)
         then char_of (n + 32) else c)"

definition lower :: "string \<Rightarrow> string" where
  "lower val = map lower_char val"

text \<open>The return type \<open>Union[str, bool]\<close> of \<open>str_to_bool_or_str\<close>.\<close>

datatype str_or_bool = PyBool bool | PyStr string

definition true_values :: "string list" where
  "true_values = [''y'', ''yes'', ''t'', ''true'', ''on'', ''1'']"

definition false_values :: "string list" where
  "false_values = [''n'', ''no'', ''f'', ''false'', ''off'', ''0'']"

definition str_to_bool_or_str :: "string \<Rightarrow> str_or_bool" where
  "str_to_bool_or_str val =
     (let lower = lower val
      in if lower \<in> set true_values then PyBool True
         else if lower \<in> set false_values then PyBool False
         else PyStr val)"

definition str_to_bool :: "string \<Rightarrow> py_error + bool" where
  "str_to_bool val =
     (let val_converted = str_to_bool_or_str val
      in case val_converted of
           PyBool b \<Rightarrow> Inr b
         | PyStr s \<Rightarrow> Inl (ValueError (''invalid truth value '' @ s)))"

text \<open>Whether a call raised \<open>ValueError\<close>, whatever its message.\<close>

fun raises_ValueError :: "py_error + 'a \<Rightarrow> bool" where
  "raises_ValueError (Inl (ValueError msg)) = True"
| "raises_ValueError r = False"

section \<open>plugins/precision/sharded_native_amp.py: gradient clipping\<close>

text \<open>
  The sharded optimizer (fairscale's \<open>OSS\<close>) is outside the repository. It is modelled as
  an object with a state of its own and a record of the calls made to its method
  \<open>clip_grad_norm\<close>, each with the positional argument and the \<open>norm_type\<close> keyword
  argument it received. What the method does to the state and what it returns or raises
  is the parameter \<open>impl\<close>.
\<close>

record ('c, 'n, 's) OSS =
  oss_state :: 's
  clip_grad_norm_calls :: "('c \<times> 'n) list"

definition clip_grad_norm ::
  "('c \<Rightarrow> 'n \<Rightarrow> 's \<Rightarrow> (py_error + 'r) \<times> 's) \<Rightarrow> ('c, 'n, 's) OSS \<Rightarrow> 'c \<Rightarrow> 'n
     \<Rightarrow> (py_error + 'r) \<times> ('c, 'n, 's) OSS" where
  "clip_grad_norm impl optimizer max_norm norm_type =
     (let (r, s') = impl max_norm norm_type (oss_state optimizer)
      in (r, \<lparr>oss_state = s',
              clip_grad_norm_calls = clip_grad_norm_calls optimizer @ [(max_norm, norm_type)]\<rparr>))"

text \<open>
  \<open>ShardedNativeMixedPrecisionPlugin.clip_grad_by_norm\<close>: the body is the single call
  \<open>optimizer.clip_grad_norm(clip_val, norm_type=norm_type)\<close>, whose value is dropped; the
  method returns \<open>None\<close> (here \<open>()\<close>), and an exception of the call propagates.
\<close>

definition clip_grad_by_norm ::
  "('c \<Rightarrow> 'n \<Rightarrow> 's \<Rightarrow> (py_error + 'r) \<times> 's) \<Rightarrow> ('c, 'n, 's) OSS \<Rightarrow> 'c \<Rightarrow> 'n \<Rightarrow> 'e
     \<Rightarrow> (py_error + unit) \<times> ('c, 'n, 's) OSS" where
  "clip_grad_by_norm impl optimizer clip_val norm_type eps =
     (case clip_grad_norm impl optimizer clip_val norm_type of
        (Inl e, optimizer') \<Rightarrow> (Inl e, optimizer')
      | (Inr _, optimizer') \<Rightarrow> (Inr (), optimizer'))"

section \<open>utilities/parsing.py: the keys of a constructor signature\<close>

text \<open>
  \<open>inspect.Parameter\<close> with its name and kind; a class is modelled by the ordered
  parameters of the signature of its \<open>__init__\<close>, which is all the code reads of it.
\<close>

datatype param_kind =
  POSITIONAL_ONLY | POSITIONAL_OR_KEYWORD | VAR_POSITIONAL | KEYWORD_ONLY | VAR_KEYWORD

datatype parameter = Parameter (name: string) (kind: param_kind)

datatype pyclass = PyClass (init_parameters: "parameter list")

fun get_first_if_any :: "parameter list \<Rightarrow> param_kind \<Rightarrow> string option" where
  "get_first_if_any [] param_type = None"
| "get_first_if_any (p # params) param_type =
     (if kind p = param_type then Some (name p) else get_first_if_any params param_type)"

text \<open>\<open>init_params[0]\<close> raises \<open>IndexError\<close> on a signature without parameters.\<close>

definition parse_class_init_keys ::
  "pyclass \<Rightarrow> py_error + (string \<times> string option \<times> string option)" where
  "parse_class_init_keys cls =
     (let init_params = init_parameters cls
      in case init_params of
           [] \<Rightarrow> Inl IndexError
         | p0 # _ \<Rightarrow>
             (let n_self = name p0;
                  n_args = get_first_if_any init_params VAR_POSITIONAL;
                  n_kwargs = get_first_if_any init_params VAR_KEYWORD
              in Inr (n_self, n_args, n_kwargs)))"

section \<open>utilities/parsing.py: AttributeDict\<close>

text \<open>
  A dict with string keys is an association list in insertion order: \<open>d[key]\<close> reads the
  entry of the key and raises \<open>KeyError\<close> when there is none, \<open>d[key] = val\<close> replaces the
  value of a present key in place and appends a new key at the end.
\<close>

type_synonym 'v dict = "(string \<times> 'v) list"

definition dict_getitem :: "'v dict \<Rightarrow> string \<Rightarrow> py_error + 'v" where
  "dict_getitem d key = (case map_of d key of None \<Rightarrow> Inl (KeyError key) | Some v \<Rightarrow> Inr v)"

definition dict_setitem :: "'v dict \<Rightarrow> string \<Rightarrow> 'v \<Rightarrow> 'v dict" where
  "dict_setitem d key val = AList.update key val d"

text \<open>
  The two methods of \<open>AttributeDict\<close>: \<open>__getattr__\<close> returns \<open>self[key]\<close> and turns a
  \<open>KeyError\<close> into an \<open>AttributeError\<close>; \<open>__setattr__\<close> is \<open>self[key] = val\<close>.
\<close>

definition AttributeDict_getattr :: "'v dict \<Rightarrow> string \<Rightarrow> py_error + 'v" where
  "AttributeDict_getattr self key =
     (case dict_getitem self key of
        Inr v \<Rightarrow> Inr v
      | Inl (KeyError k) \<Rightarrow>
          Inl (AttributeError (''Missing attribute '' @ [CHR 0x22] @ key @ [CHR 0x22]))
      | Inl e \<Rightarrow> Inl e)"

definition AttributeDict_setattr :: "'v dict \<Rightarrow> string \<Rightarrow> 'v \<Rightarrow> 'v dict" where
  "AttributeDict_setattr self key val = dict_setitem self key val"

text \<open>
  The expression \<open>ad.key\<close>. Python calls \<open>__getattr__\<close> only when the normal attribute
  lookup has failed; the normal lookup finds the attributes of the class and of its
  bases (the methods of \<open>dict\<close> among them) and the entries of the instance \<open>__dict__\<close>,
  which stays empty because \<open>__setattr__\<close> stores into the items of the dict. What the
  normal lookup finds is the parameter \<open>type_attrs\<close>. The statement \<open>ad.key = val\<close> always
  calls \<open>__setattr__\<close>.
\<close>

definition getattribute :: "(string \<Rightarrow> 'v option) \<Rightarrow> 'v dict \<Rightarrow> string \<Rightarrow> py_error + 'v" where
  "getattribute type_attrs self key =
     (case type_attrs key of
        Some a \<Rightarrow> Inr a
      | None \<Rightarrow> AttributeDict_getattr self key)"

text \<open>
  Values for concrete dicts: plain data, and the bound method that the normal lookup
  returns for the name of a public method of \<open>dict\<close>.
\<close>

datatype attr_value = Data int | BuiltinMethod string

definition dict_methods :: "string \<Rightarrow> attr_value option" where
  "dict_methods key =
     (if key \<in> set [''clear'', ''copy'', ''fromkeys'', ''get'', ''items'', ''keys'', ''pop'',
                     ''popitem'', ''setdefault'', ''update'', ''values'']
      then Some (BuiltinMethod key) else None)"

section \<open>utilities/parsing.py: removing entries that cannot be pickled\<close>

text \<open>
  \<open>pickle.dumps\<close> is outside the repository: the parameter \<open>dumps\<close> gives, for each value,
  the bytes it returns or the exception it raises. \<open>is_picklable\<close> catches
  \<open>pickle.PickleError\<close> and \<open>AttributeError\<close>; any other exception of \<open>dumps\<close> leaves
  \<open>is_picklable\<close> as it is.
\<close>

definition is_picklable :: "('v \<Rightarrow> py_error + 'b) \<Rightarrow> 'v \<Rightarrow> py_error + bool" where
  "is_picklable dumps obj =
     (case dumps obj of
        Inr _ \<Rightarrow> Inr True
      | Inl PickleError \<Rightarrow> Inr False
      | Inl (AttributeError m) \<Rightarrow> Inr False
      | Inl e \<Rightarrow> Inl e)"

text \<open>
  The argument \<open>hparams\<close> is a dict, or an \<open>argparse.Namespace\<close>, modelled by its
  \<open>__dict__\<close>. \<open>del d[key]\<close> raises \<open>KeyError\<close> when the key is absent.
\<close>

datatype 'v hparams = HDict "'v dict" | HNamespace "'v dict"

definition dict_delitem :: "'v dict \<Rightarrow> string \<Rightarrow> py_error + 'v dict" where
  "dict_delitem d key =
     (case map_of d key of
        None \<Rightarrow> Inl (KeyError key)
      | Some _ \<Rightarrow> Inr (AList.delete key d))"

text \<open>
  The comprehension \<open>[k for k, v in hparams_dict.items() if not is_picklable(v)]\<close> goes
  through the items in order; the first exception of \<open>is_picklable\<close> ends it.
\<close>

fun del_attrs_of :: "('v \<Rightarrow> py_error + 'b) \<Rightarrow> 'v dict \<Rightarrow> py_error + string list" where
  "del_attrs_of dumps [] = Inr []"
| "del_attrs_of dumps ((k, v) # items) =
     (case is_picklable dumps v of
        Inl e \<Rightarrow> Inl e
      | Inr picklable \<Rightarrow>
          (case del_attrs_of dumps items of
             Inl e \<Rightarrow> Inl e
           | Inr ks \<Rightarrow> Inr (if \<not> picklable then k # ks else ks)))"

definition removed_warning :: "string \<Rightarrow> string" where
  "removed_warning k =
     ''attribute '' @ [CHR 0x27] @ k @ [CHR 0x27]
       @ '' removed from hparams because it cannot be pickled''"

text \<open>
  The loop \<open>for k in del_attrs\<close>: each round passes one message to \<open>rank_zero_warn\<close>
  (the messages are collected in a list) and deletes the key.
\<close>

fun delete_attrs ::
  "string list \<Rightarrow> 'v dict \<Rightarrow> string list \<Rightarrow> (py_error + unit) \<times> 'v dict \<times> string list" where
  "delete_attrs [] hparams_dict warnings = (Inr (), hparams_dict, warnings)"
| "delete_attrs (k # ks) hparams_dict warnings =
     (case dict_delitem hparams_dict k of
        Inl e \<Rightarrow> (Inl e, hparams_dict, warnings @ [removed_warning k])
      | Inr d \<Rightarrow> delete_attrs ks d (warnings @ [removed_warning k]))"

text \<open>
  \<open>clean_namespace\<close> changes its argument in place: the model returns what the call
  returns or raises, the argument as the call leaves it, and the warnings so far.
\<close>

definition clean_namespace ::
  "('v \<Rightarrow> py_error + 'b) \<Rightarrow> 'v hparams \<Rightarrow> string list
     \<Rightarrow> (py_error + unit) \<times> 'v hparams \<times> string list" where
  "clean_namespace dumps hparams warnings =
     (let hparams_dict = (case hparams of HNamespace ns \<Rightarrow> ns | HDict d \<Rightarrow> d)
      in case del_attrs_of dumps hparams_dict of
           Inl e \<Rightarrow> (Inl e, hparams, warnings)
         | Inr del_attrs \<Rightarrow>
             (case delete_attrs del_attrs hparams_dict warnings of
                (r, d, warnings') \<Rightarrow>
                  (r, (case hparams of HNamespace _ \<Rightarrow> HNamespace d | HDict _ \<Rightarrow> HDict d),
                   warnings')))"

text \<open>
  Values for concrete hyperparameters, with what \<open>pickle.dumps\<close> does on them: a number
  is pickled, a lambda raises \<open>PicklingError\<close> (a \<open>PickleError\<close>), a \<open>threading.Lock\<close>
  raises \<open>TypeError\<close>.
\<close>

datatype hvalue = HNumber int | HLambda | HLock

fun pickle_dumps :: "hvalue \<Rightarrow> py_error + int list" where
  "pickle_dumps (HNumber i) = Inr [i]"
| "pickle_dumps HLambda = Inl PickleError"
| "pickle_dumps HLock = Inl (TypeError ''cannot pickle _thread.lock object'')"

section \<open>utilities/parsing.py: constructor arguments from stack frames\<close>

























section \<open>utilities/parsing.py: attributes of the model, its hparams and the datamodule\<close>

text \<open>
  The model, its hparams, its trainer and the datamodule are objects that are shared and
  changed in place, so they live in a heap. A value is \<open>None\<close>, a number, a dict, an
  instance of a class, a class, or the property object that reading a property from
  its class gives; dicts, instances and classes are known by a number. The heap gives
  the items of every dict; the class and the \<open>__dict__\<close> of every instance, where the
  \<open>__dict__\<close> is a dict of the heap (the one that \<open>obj.__dict__\<close> returns, and that
  other objects may share); and for every class the attributes that it provides to its
  instances, the inherited ones included: plain class attributes (methods, class
  variables) and read-only data descriptors (a property without a setter,
  \<open>__weakref__\<close>). A read-only data descriptor has a getter, which is given the
  instance, may read the items of every dict and the class and \<open>__dict__\<close> of every
  instance, changes nothing, and returns a value or raises. A class can be
  \<open>argparse.Namespace\<close> or a subclass of it; its instances answer \<open>key in obj\<close> from
  their \<open>__dict__\<close>. The instances are those of classes that leave attribute access to
  \<open>object\<close>: no \<open>__getattr__\<close>, \<open>__getattribute__\<close>, \<open>__setattr__\<close> or \<open>__slots__\<close> of their
  own, no data descriptor with a setter, and, \<open>Namespace\<close> apart, no \<open>__contains__\<close>,
  \<open>__iter__\<close> or \<open>__getitem__\<close>. A dict is a \<open>dict\<close> or an instance of a subclass that
  leaves item access and \<open>in\<close> to \<open>dict\<close>; its attributes are those of the builtin.
\<close>

datatype pyval = VNone | VNumber int | VDict nat | VObject nat | VClass nat | VProperty nat string

datatype class_attr =
    ClassValue pyval
  | ReadOnlyProperty "(nat \<Rightarrow> pyval dict) \<Rightarrow> (nat \<Rightarrow> nat \<times> nat) \<Rightarrow> nat \<Rightarrow> py_error + pyval"

datatype class_obj = ClassObj (provided: "class_attr dict") (is_namespace: bool)

record heap =
  dict_items :: "nat \<Rightarrow> pyval dict"
  instances :: "nat \<Rightarrow> nat \<times> nat"
  classes :: "nat \<Rightarrow> class_obj"

text \<open>
  What the interpreter fixes and the repository does not: the attributes of \<open>None\<close>, of
  a number, of a dict and of a property object, those that the metaclass gives to a
  class object (\<open>builtin\<close>), and the assignments to an attribute of a class that \<open>type\<close>
  refuses (\<open>type_refuses\<close>). A missing attribute raises \<open>AttributeError\<close>.
\<close>

datatype builtin_value = BNone | BNumber int | BDict | BType nat | BProperty

record runtime =
  builtin :: "builtin_value \<Rightarrow> string \<Rightarrow> pyval option"
  type_refuses :: "string \<Rightarrow> pyval \<Rightarrow> py_error option"

definition no_attribute :: "string \<Rightarrow> py_error" where
  "no_attribute key = AttributeError (''object has no attribute '' @ key)"

definition builtin_attr :: "runtime \<Rightarrow> builtin_value \<Rightarrow> string \<Rightarrow> py_error + pyval" where
  "builtin_attr rt b key =
     (case builtin rt b key of None \<Rightarrow> Inl (no_attribute key) | Some v \<Rightarrow> Inr v)"

text \<open>
  \<open>getattr\<close> on an instance: \<open>__dict__\<close> and \<open>__class__\<close> are its dict and its class; a
  data descriptor of the class comes before the instance \<open>__dict__\<close> and answers with
  its getter, and the instance \<open>__dict__\<close> comes before a plain class attribute. On a
  class, what the metaclass provides comes first, then the attributes of the class,
  where a property is read as the property object.
\<close>

definition instance_getattr :: "heap \<Rightarrow> nat \<Rightarrow> string \<Rightarrow> py_error + pyval" where
  "instance_getattr h obj key =
     (case instances h obj of
        (cls, d) \<Rightarrow>
          if key = ''__dict__'' then Inr (VDict d)
          else if key = ''__class__'' then Inr (VClass cls)
          else (case map_of (provided (classes h cls)) key of
                  Some (ReadOnlyProperty fget) \<Rightarrow> fget (dict_items h) (instances h) obj
                | Some (ClassValue c) \<Rightarrow>
                    (case map_of (dict_items h d) key of Some v \<Rightarrow> Inr v | None \<Rightarrow> Inr c)
                | None \<Rightarrow>
                    (case map_of (dict_items h d) key of
                       Some v \<Rightarrow> Inr v
                     | None \<Rightarrow> Inl (no_attribute key))))"

definition class_getattr :: "runtime \<Rightarrow> heap \<Rightarrow> nat \<Rightarrow> string \<Rightarrow> py_error + pyval" where
  "class_getattr rt h cls key =
     (case builtin rt (BType cls) key of
        Some v \<Rightarrow> Inr v
      | None \<Rightarrow>
          (case map_of (provided (classes h cls)) key of
             Some (ClassValue c) \<Rightarrow> Inr c
           | Some (ReadOnlyProperty fget) \<Rightarrow> Inr (VProperty cls key)
           | None \<Rightarrow> Inl (no_attribute key)))"

fun py_getattr :: "runtime \<Rightarrow> heap \<Rightarrow> pyval \<Rightarrow> string \<Rightarrow> py_error + pyval" where
  "py_getattr rt h VNone key = builtin_attr rt BNone key"
| "py_getattr rt h (VNumber i) key = builtin_attr rt (BNumber i) key"
| "py_getattr rt h (VDict d) key = builtin_attr rt BDict key"
| "py_getattr rt h (VObject obj) key = instance_getattr h obj key"
| "py_getattr rt h (VClass cls) key = class_getattr rt h cls key"
| "py_getattr rt h (VProperty cls prop) key = builtin_attr rt BProperty key"




















text \<open>
  The objects that can be holders besides the model, and the trainer through which the
  datamodule is found; \<open>None\<close> stands for one that cannot be read.
\<close>

definition value_or_None :: "py_error + pyval \<Rightarrow> pyval" where
  "value_or_None r = (case r of Inr v \<Rightarrow> v | Inl e \<Rightarrow> VNone)"


definition trainer_of :: "runtime \<Rightarrow> heap \<Rightarrow> pyval \<Rightarrow> pyval" where
  "trainer_of rt h model = value_or_None (py_getattr rt h model ''trainer'')"


text \<open>
  The dict that a write into a holder changes (the holder itself, or the \<open>__dict__\<close> of
  an instance), whether a class gives a name to its instances as a read-only data
  descriptor, and the heap after the attribute has been stored in the dicts \<open>W\<close>. An
  ordinary attribute of an instance is one that \<open>setattr\<close> stores in the \<open>__dict__\<close> of
  the instance and that \<open>getattr\<close> reads from there: neither \<open>__dict__\<close> nor \<open>__class__\<close>
  nor a data descriptor of the class.
\<close>

fun written_dict :: "heap \<Rightarrow> pyval \<Rightarrow> nat option" where
  "written_dict h (VDict d) = Some d"
| "written_dict h (VObject obj) = Some (snd (instances h obj))"
| "written_dict h x = None"


definition is_property :: "heap \<Rightarrow> nat \<Rightarrow> string \<Rightarrow> bool" where
  "is_property h obj key =
     (case map_of (provided (classes h (fst (instances h obj)))) key of
        Some (ReadOnlyProperty fget) \<Rightarrow> True
      | _ \<Rightarrow> False)"

definition ordinary_attribute :: "heap \<Rightarrow> nat \<Rightarrow> string \<Rightarrow> bool" where
  "ordinary_attribute h obj key \<longleftrightarrow>
     key \<noteq> ''__dict__'' \<and> key \<noteq> ''__class__'' \<and> \<not> is_property h obj key"


definition after_write :: "nat set \<Rightarrow> string \<Rightarrow> pyval \<Rightarrow> heap \<Rightarrow> heap" where
  "after_write W attribute val h =
     h\<lparr>dict_items := (\<lambda>d. if d \<in> W then dict_setitem (dict_items h d) attribute val else dict_items h d)\<rparr>"

text \<open>
  The holders are found through \<open>model.hparams\<close>, \<open>model.trainer\<close> and
  \<open>trainer.datamodule\<close>. Two heaps find them alike when these three reads give the same
  result, or raise the same exception, in both.
\<close>

definition holders_found_alike :: "runtime \<Rightarrow> heap \<Rightarrow> heap \<Rightarrow> pyval \<Rightarrow> bool" where
  "holders_found_alike rt h h' model \<longleftrightarrow>
     py_getattr rt h' model ''trainer'' = py_getattr rt h model ''trainer''
     \<and> py_getattr rt h' model ''hparams'' = py_getattr rt h model ''hparams''
     \<and> py_getattr rt h' (trainer_of rt h model) ''datamodule''
         = py_getattr rt h (trainer_of rt h model) ''datamodule''"








section \<open>Properties of the string conversion\<close>

lemma str_to_bool_cases:
  "str_to_bool val =
     (if lower val \<in> set true_values then Inr True
      else if lower val \<in> set false_values then Inr False
      else Inl (ValueError (''invalid truth value '' @ val)))"
  by (simp add: str_to_bool_def str_to_bool_or_str_def Let_def)

lemma true_false_disjoint: "set true_values \<inter> set false_values = {}"
  by (simp add: true_values_def false_values_def)

text \<open>
  Claim C9. \<open>str_to_bool val\<close> returns \<open>True\<close> exactly when \<open>val.lower()\<close> is one of the
  six true values, returns \<open>False\<close> exactly when it is one of the six false values, and
  raises \<open>ValueError\<close> for every other string; two strings with the same lowercase form
  have the same outcome (the same boolean, or both \<open>ValueError\<close>).
\<close>

theorem str_to_bool_spec:
  "(str_to_bool val = Inr True \<longleftrightarrow>
      lower val \<in> {''y'', ''yes'', ''t'', ''true'', ''on'', ''1''})
   \<and> (str_to_bool val = Inr False \<longleftrightarrow>
      lower val \<in> {''n'', ''no'', ''f'', ''false'', ''off'', ''0''})
   \<and> (raises_ValueError (str_to_bool val) \<longleftrightarrow>
      lower val \<notin> {''y'', ''yes'', ''t'', ''true'', ''on'', ''1''}
                 \<union> {''n'', ''no'', ''f'', ''false'', ''off'', ''0''})
   \<and> (lower val = lower val' \<longrightarrow>
        (\<forall>b. str_to_bool val = Inr b \<longleftrightarrow> str_to_bool val' = Inr b)
        \<and> (raises_ValueError (str_to_bool val) \<longleftrightarrow> raises_ValueError (str_to_bool val')))"
proof -
  have t: "set true_values = {''y'', ''yes'', ''t'', ''true'', ''on'', ''1''}"
    by (simp add: true_values_def)
  have f: "set false_values = {''n'', ''no'', ''f'', ''false'', ''off'', ''0''}"
    by (simp add: false_values_def)
  have d: "lower val \<in> set true_values \<Longrightarrow> lower val \<notin> set false_values"
    using true_false_disjoint by blast
  have 1: "str_to_bool val = Inr True \<longleftrightarrow> lower val \<in> set true_values"
    using d by (simp add: str_to_bool_cases)
  have 2: "str_to_bool val = Inr False \<longleftrightarrow> lower val \<in> set false_values"
    using d by (auto simp add: str_to_bool_cases)
  have 3: "raises_ValueError (str_to_bool val) \<longleftrightarrow>
             lower val \<notin> set true_values \<union> set false_values"
    by (simp add: str_to_bool_cases)
  have 4: "lower val = lower val' \<longrightarrow>
        (\<forall>b. str_to_bool val = Inr b \<longleftrightarrow> str_to_bool val' = Inr b)
        \<and> (raises_ValueError (str_to_bool val) \<longleftrightarrow> raises_ValueError (str_to_bool val'))"
    by (simp add: str_to_bool_cases)
  show ?thesis
    using 1 2 3 4 unfolding t f by blast
qed

theorem str_to_bool_spec_witness:
  "lower ''YES'' = lower ''yes''
   \<and> str_to_bool ''YES'' = Inr True \<and> str_to_bool ''yes'' = Inr True"
proof -
  have l: "lower ''YES'' = ''yes''" "lower ''yes'' = ''yes''"
    by code_simp+
  show ?thesis
    using str_to_bool_spec [of "''YES''" "''yes''"] l by auto
qed

section \<open>Properties of the gradient clipping\<close>

text \<open>
  Claim C3. For every optimizer, clip value, norm type and eps,
  \<open>clip_grad_by_norm\<close> calls \<open>optimizer.clip_grad_norm(clip_val, norm_type=norm_type)\<close>
  exactly once (the optimizer's call record grows by exactly that one call, and the
  optimizer is left as that one call leaves it), returns \<open>None\<close> when the call returns
  (an exception of the call propagates), and does not use \<open>eps\<close>.
\<close>

theorem clip_grad_by_norm_delegates:
  "clip_grad_norm_calls (snd (clip_grad_by_norm impl optimizer clip_val norm_type eps))
     = clip_grad_norm_calls optimizer @ [(clip_val, norm_type)]
   \<and> snd (clip_grad_by_norm impl optimizer clip_val norm_type eps)
     = snd (clip_grad_norm impl optimizer clip_val norm_type)
   \<and> fst (clip_grad_by_norm impl optimizer clip_val norm_type eps)
     = (case fst (clip_grad_norm impl optimizer clip_val norm_type) of
          Inl e \<Rightarrow> Inl e | Inr r \<Rightarrow> Inr ())
   \<and> clip_grad_by_norm impl optimizer clip_val norm_type eps
     = clip_grad_by_norm impl optimizer clip_val norm_type eps'"
  by (simp add: clip_grad_by_norm_def clip_grad_norm_def Let_def
           split: prod.splits sum.splits)

section \<open>Properties of the signature keys\<close>

lemma get_first_if_any_find:
  "get_first_if_any params param_type
     = map_option name (find (\<lambda>p. kind p = param_type) params)"
  by (induction params) simp_all

text \<open>
  Claim C7, as the spec states it, fails on a class whose \<open>__init__\<close> signature has no
  parameter (\<open>def __init__(): pass\<close>): \<open>init_params[0]\<close> raises \<open>IndexError\<close> and no
  triple is returned.
\<close>

theorem parse_class_init_keys_empty_signature:
  "parse_class_init_keys (PyClass []) = Inl IndexError"
  by (simp add: parse_class_init_keys_def)

text \<open>
  Claim C7, amended. For every class whose \<open>__init__\<close> signature has at least one
  parameter, \<open>parse_class_init_keys\<close> returns the triple of the name of the first
  parameter, the name of the first var-positional parameter or \<open>None\<close>, and the name of
  the first var-keyword parameter or \<open>None\<close>.
\<close>

theorem parse_class_init_keys_spec:
  "init_parameters cls \<noteq> [] \<Longrightarrow>
   parse_class_init_keys cls =
     Inr (name (hd (init_parameters cls)),
          map_option name (find (\<lambda>p. kind p = VAR_POSITIONAL) (init_parameters cls)),
          map_option name (find (\<lambda>p. kind p = VAR_KEYWORD) (init_parameters cls)))"
  by (cases "init_parameters cls")
     (simp_all add: parse_class_init_keys_def get_first_if_any_find Let_def del: find.simps)

theorem parse_class_init_keys_spec_witness:
  "init_parameters (PyClass [Parameter ''self'' POSITIONAL_OR_KEYWORD,
                             Parameter ''hparams'' POSITIONAL_OR_KEYWORD,
                             Parameter ''my_args'' VAR_POSITIONAL,
                             Parameter ''anykw'' KEYWORD_ONLY,
                             Parameter ''my_kwargs'' VAR_KEYWORD]) \<noteq> []
   \<and> parse_class_init_keys (PyClass [Parameter ''self'' POSITIONAL_OR_KEYWORD,
                             Parameter ''hparams'' POSITIONAL_OR_KEYWORD,
                             Parameter ''my_args'' VAR_POSITIONAL,
                             Parameter ''anykw'' KEYWORD_ONLY,
                             Parameter ''my_kwargs'' VAR_KEYWORD])
       = Inr (''self'', Some ''my_args'', Some ''my_kwargs'')"
  using parse_class_init_keys_spec
          [of "PyClass [Parameter ''self'' POSITIONAL_OR_KEYWORD,
                        Parameter ''hparams'' POSITIONAL_OR_KEYWORD,
                        Parameter ''my_args'' VAR_POSITIONAL,
                        Parameter ''anykw'' KEYWORD_ONLY,
                        Parameter ''my_kwargs'' VAR_KEYWORD]"]
  by simp

section \<open>Properties of AttributeDict\<close>

lemma dict_getitem_setitem: "dict_getitem (dict_setitem d key val) key = Inr val"
  by (simp add: dict_getitem_def dict_setitem_def update_conv')

lemma dict_getitem_present:
  "key \<in> fst ` set d \<Longrightarrow> \<exists>v. dict_getitem d key = Inr v"
  by (cases "map_of d key") (auto simp add: dict_getitem_def map_of_eq_None_iff)

lemma dict_getitem_absent:
  "key \<notin> fst ` set d \<Longrightarrow> dict_getitem d key = Inl (KeyError key)"
  using map_of_eq_None_iff [of d key] by (simp add: dict_getitem_def)

lemma AttributeDict_getattr_no_KeyError:
  "AttributeDict_getattr self key \<noteq> Inl (KeyError m)"
  by (simp add: AttributeDict_getattr_def dict_getitem_def split: option.splits)

text \<open>
  Claim C5, as the spec states it, fails for a key that is also the name of a method of
  \<open>dict\<close>: after \<open>ad.keys = 1\<close> the key \<open>keys\<close> is in the dict and \<open>ad['keys']\<close> is 1, but
  \<open>ad.keys\<close> is the bound method, found by the normal lookup before \<open>__getattr__\<close> is
  tried.
\<close>

theorem attribute_access_shadowed_by_method:
  "''keys'' \<in> fst ` set (AttributeDict_setattr [] ''keys'' (Data 1))
   \<and> dict_getitem (AttributeDict_setattr [] ''keys'' (Data 1)) ''keys'' = Inr (Data 1)
   \<and> getattribute dict_methods (AttributeDict_setattr [] ''keys'' (Data 1)) ''keys''
       = Inr (BuiltinMethod ''keys'')
   \<and> getattribute dict_methods (AttributeDict_setattr [] ''keys'' (Data 1)) ''keys''
       \<noteq> dict_getitem (AttributeDict_setattr [] ''keys'' (Data 1)) ''keys''"
  by (simp add: AttributeDict_setattr_def dict_setitem_def dict_getitem_def
                getattribute_def dict_methods_def)

text \<open>
  Claim C5, amended. For every AttributeDict \<open>ad\<close>, key \<open>k\<close> and value \<open>v\<close>: the
  assignment \<open>ad.k = v\<close> stores \<open>v\<close> so that \<open>ad[k]\<close> equals \<open>v\<close>, and it is the item
  assignment \<open>ad[k] = v\<close>; for every \<open>k\<close> that the normal attribute lookup does not find
  (\<open>k\<close> is not the name of a method of \<open>dict\<close> or of another attribute of the class),
  \<open>ad.k\<close> returns \<open>ad[k]\<close> whenever \<open>k\<close> is a key of the dict, and reading \<open>ad.k\<close> after
  \<open>ad.k = v\<close> returns \<open>v\<close>.
\<close>

theorem AttributeDict_set_get:
  "dict_getitem (AttributeDict_setattr ad k v) k = Inr v
   \<and> AttributeDict_setattr ad k v = dict_setitem ad k v
   \<and> (type_attrs k = None \<longrightarrow> k \<in> fst ` set ad \<longrightarrow>
        getattribute type_attrs ad k = dict_getitem ad k
        \<and> (\<exists>x. getattribute type_attrs ad k = Inr x))
   \<and> (type_attrs k = None \<longrightarrow>
        getattribute type_attrs (AttributeDict_setattr ad k v) k = Inr v)"
proof -
  have 1: "dict_getitem (AttributeDict_setattr ad k v) k = Inr v"
    by (simp add: AttributeDict_setattr_def dict_getitem_setitem)
  have 2: "getattribute type_attrs ad k = dict_getitem ad k
           \<and> (\<exists>x. getattribute type_attrs ad k = Inr x)"
    if "type_attrs k = None" "k \<in> fst ` set ad"
    using that dict_getitem_present [of k ad]
    by (auto simp add: getattribute_def AttributeDict_getattr_def)
  have 3: "getattribute type_attrs (AttributeDict_setattr ad k v) k = Inr v"
    if "type_attrs k = None"
    using that 1 by (simp add: getattribute_def AttributeDict_getattr_def)
  have 0: "AttributeDict_setattr ad k v = dict_setitem ad k v"
    by (simp add: AttributeDict_setattr_def)
  show ?thesis
    using 0 1 2 3 by blast
qed

theorem AttributeDict_set_get_witness:
  "dict_methods ''key1'' = None
   \<and> ''key1'' \<in> fst ` set [(''key1'', Data 1), (''key2'', Data 7)]
   \<and> getattribute dict_methods [(''key1'', Data 1), (''key2'', Data 7)] ''key1'' = Inr (Data 1)
   \<and> AttributeDict_setattr [(''key1'', Data 1), (''key2'', Data 7)] ''key1'' (Data 2)
       = [(''key1'', Data 2), (''key2'', Data 7)]
   \<and> getattribute dict_methods
        (AttributeDict_setattr [(''key1'', Data 1), (''key2'', Data 7)] ''key1'' (Data 2)) ''key1''
       = Inr (Data 2)"
  using AttributeDict_set_get
          [of "[(''key1'', Data 1), (''key2'', Data 7)]" "''key1''" "Data 2" dict_methods]
  by (simp add: dict_methods_def dict_setitem_def dict_getitem_def AttributeDict_setattr_def
                getattribute_def AttributeDict_getattr_def)

text \<open>
  Claim C6, as the spec states it, fails for a name that the normal lookup finds: on the
  empty AttributeDict the key \<open>keys\<close> is not present, and \<open>ad.keys\<close> returns the bound
  method of \<open>dict\<close> instead of raising \<open>AttributeError\<close>.
\<close>

theorem attribute_access_absent_key_returns_method:
  "''keys'' \<notin> fst ` set ([] :: attr_value dict)
   \<and> getattribute dict_methods [] ''keys'' = Inr (BuiltinMethod ''keys'')"
  by (simp add: getattribute_def dict_methods_def)

text \<open>
  Claim C6, amended. For every AttributeDict \<open>ad\<close> and every key \<open>k\<close> that is not present
  in \<open>ad\<close> and that the normal attribute lookup does not find, \<open>ad.k\<close> raises
  \<open>AttributeError\<close> (the \<open>KeyError\<close> of \<open>ad[k]\<close> is caught and converted); attribute access
  on an AttributeDict never raises \<open>KeyError\<close>.
\<close>

theorem AttributeDict_missing_key:
  "(type_attrs k = None \<longrightarrow> k \<notin> fst ` set ad \<longrightarrow>
      dict_getitem ad k = Inl (KeyError k)
      \<and> getattribute type_attrs ad k
          = Inl (AttributeError (''Missing attribute '' @ [CHR 0x22] @ k @ [CHR 0x22])))
   \<and> getattribute type_attrs ad k \<noteq> Inl (KeyError m)"
proof -
  have 1: "getattribute type_attrs ad k
             = Inl (AttributeError (''Missing attribute '' @ [CHR 0x22] @ k @ [CHR 0x22]))"
    if "type_attrs k = None" "k \<notin> fst ` set ad"
    using that dict_getitem_absent [of k ad]
    by (simp add: getattribute_def AttributeDict_getattr_def)
  have 2: "getattribute type_attrs ad k \<noteq> Inl (KeyError m)"
    using AttributeDict_getattr_no_KeyError [of ad k m]
    by (simp add: getattribute_def split: option.splits)
  show ?thesis
    using 1 2 dict_getitem_absent [of k ad] by simp
qed

theorem AttributeDict_missing_key_witness:
  "dict_methods ''key3'' = None
   \<and> ''key3'' \<notin> fst ` set [(''key1'', Data 1), (''key2'', Data 7)]
   \<and> getattribute dict_methods [(''key1'', Data 1), (''key2'', Data 7)] ''key3''
       = Inl (AttributeError (''Missing attribute '' @ [CHR 0x22] @ ''key3'' @ [CHR 0x22]))"
  using AttributeDict_missing_key
          [of dict_methods "''key3''" "[(''key1'', Data 1), (''key2'', Data 7)]"]
  by (simp add: dict_methods_def)

section \<open>Properties of the removal of unpicklable entries\<close>

lemma del_attrs_of_total:
  "\<forall>v \<in> snd ` set d. \<exists>p. is_picklable dumps v = Inr p \<Longrightarrow>
   del_attrs_of dumps d
     = Inr (map fst (filter (\<lambda>(k, v). is_picklable dumps v = Inr False) d))"
proof (induction d)
  case Nil
  then show ?case by simp
next
  case (Cons kv d)
  obtain k v where kv: "kv = (k, v)" by (cases kv)
  from Cons.prems kv obtain p where p: "is_picklable dumps v = Inr p" by auto
  from Cons have ih: "del_attrs_of dumps d
     = Inr (map fst (filter (\<lambda>(k, v). is_picklable dumps v = Inr False) d))" by simp
  show ?case using kv p ih by simp
qed

lemma delete_attrs_present:
  "distinct ks \<Longrightarrow> set ks \<subseteq> fst ` set d \<Longrightarrow>
   delete_attrs ks d w
     = (Inr (), filter (\<lambda>(k, v). k \<notin> set ks) d, w @ map removed_warning ks)"
proof (induction ks arbitrary: d w)
  case Nil
  then show ?case by simp
next
  case (Cons k ks)
  from Cons.prems have "k \<in> fst ` set d" by simp
  then obtain v where v: "map_of d k = Some v"
    by (cases "map_of d k") (auto simp add: map_of_eq_None_iff)
  have del: "dict_delitem d k = Inr (AList.delete k d)"
    using v by (simp add: dict_delitem_def)
  have sub: "set ks \<subseteq> fst ` set (AList.delete k d)"
  proof
    fix x assume x: "x \<in> set ks"
    with Cons.prems have "x \<noteq> k" by auto
    moreover from x Cons.prems obtain b where "(x, b) \<in> set d" by force
    ultimately show "x \<in> fst ` set (AList.delete k d)"
      by (force simp add: AList.delete_eq)
  qed
  have "delete_attrs ks (AList.delete k d) (w @ [removed_warning k])
     = (Inr (), filter (\<lambda>(k', v). k' \<notin> set ks) (AList.delete k d),
        (w @ [removed_warning k]) @ map removed_warning ks)"
    using Cons.IH [OF _ sub] Cons.prems by simp
  moreover have "filter (\<lambda>(k', v). k' \<notin> set ks) (AList.delete k d)
     = filter (\<lambda>(k', v). k' \<notin> set (k # ks)) d"
    by (auto simp add: AList.delete_eq intro: filter_cong)
  ultimately show ?case using del by simp
qed

lemma clean_dict:
  assumes "distinct (map fst d)"
    and "\<forall>v \<in> snd ` set d. \<exists>p. is_picklable dumps v = Inr p"
  shows "(case del_attrs_of dumps d of
           Inl e \<Rightarrow> (Inl e, d, w)
         | Inr del_attrs \<Rightarrow> delete_attrs del_attrs d w)
     = (Inr (), filter (\<lambda>(k, v). is_picklable dumps v = Inr True) d,
        w @ map removed_warning
              (map fst (filter (\<lambda>(k, v). is_picklable dumps v = Inr False) d)))"
proof -
  let ?bad = "filter (\<lambda>(k, v). is_picklable dumps v = Inr False) d"
  have 1: "del_attrs_of dumps d = Inr (map fst ?bad)"
    using assms(2) by (rule del_attrs_of_total)
  have 2: "distinct (map fst ?bad)"
    using assms(1) by (rule distinct_map_filter)
  have 3: "set (map fst ?bad) \<subseteq> fst ` set d" by auto
  have 4: "filter (\<lambda>(k, v). k \<notin> set (map fst ?bad)) d
         = filter (\<lambda>(k, v). is_picklable dumps v = Inr True) d"
  proof (rule filter_cong [OF refl])
    fix x assume x: "x \<in> set d"
    obtain k v where kv: "x = (k, v)" by (cases x)
    from assms(2) x kv obtain p where p: "is_picklable dumps v = Inr p" by force
    have "k \<in> set (map fst ?bad) \<longleftrightarrow> is_picklable dumps v = Inr False"
    proof
      assume "k \<in> set (map fst ?bad)"
      then obtain v' where v': "(k, v') \<in> set d" "is_picklable dumps v' = Inr False" by auto
      from assms(1) x kv v'(1) have "v' = v" by (meson eq_key_imp_eq_value)
      with v'(2) show "is_picklable dumps v = Inr False" by simp
    next
      assume "is_picklable dumps v = Inr False"
      with x kv show "k \<in> set (map fst ?bad)" by force
    qed
    with p kv show "(case x of (k, v) \<Rightarrow> k \<notin> set (map fst ?bad))
        = (case x of (k, v) \<Rightarrow> is_picklable dumps v = Inr True)" by auto
  qed
  show ?thesis
    using 1 delete_attrs_present [OF 2 3, of w] 4 by simp
qed

text \<open>
  When \<open>pickle.dumps\<close> raises nothing but what \<open>is_picklable\<close> catches, on the values of
  a dict or Namespace, \<open>clean_namespace\<close> returns, the entries left are exactly those
  with a picklable value, in their order and with their values, and one warning is
  given for each entry removed.
\<close>

lemma clean_namespace_when_dumps_is_caught:
  assumes "distinct (map fst d)"
    and "\<forall>v \<in> snd ` set d. \<exists>p. is_picklable dumps v = Inr p"
  shows "clean_namespace dumps (HDict d) w
     = (Inr (), HDict (filter (\<lambda>(k, v). is_picklable dumps v = Inr True) d),
        w @ map removed_warning
              (map fst (filter (\<lambda>(k, v). is_picklable dumps v = Inr False) d)))"
    and "clean_namespace dumps (HNamespace d) w
     = (Inr (), HNamespace (filter (\<lambda>(k, v). is_picklable dumps v = Inr True) d),
        w @ map removed_warning
              (map fst (filter (\<lambda>(k, v). is_picklable dumps v = Inr False) d)))"
  using clean_dict [OF assms, of w] del_attrs_of_total [OF assms(2)]
  by (simp_all add: clean_namespace_def)

text \<open>
  Claim C4 on the hyperparameters \<open>{'fn': lambda: 0, 'lock': threading.Lock()}\<close>:
  \<open>is_picklable\<close> returns \<open>False\<close> for the lambda, and for the lock the \<open>TypeError\<close> of
  \<open>pickle.dumps\<close> is not caught. \<open>clean_namespace\<close> raises that \<open>TypeError\<close>, gives no
  warning and leaves both entries in the dict, the entry \<open>fn\<close> included.
\<close>

theorem clean_namespace_TypeError_escapes:
  "is_picklable pickle_dumps HLambda = Inr False
   \<and> is_picklable pickle_dumps HLock = Inl (TypeError ''cannot pickle _thread.lock object'')
   \<and> clean_namespace pickle_dumps (HDict [(''fn'', HLambda), (''lock'', HLock)]) []
       = (Inl (TypeError ''cannot pickle _thread.lock object''),
          HDict [(''fn'', HLambda), (''lock'', HLock)], [])"
  by (simp add: clean_namespace_def is_picklable_def)

section \<open>Properties of the frame walk\<close>


















section \<open>Properties of the attribute helpers\<close>

lemma after_write_fields [simp]:
  "instances (after_write W a v h) = instances h"
  "classes (after_write W a v h) = classes h"
  "dict_items (after_write W a v h) d = (if d \<in> W then dict_setitem (dict_items h d) a v else dict_items h d)"
  by (simp_all add: after_write_def)

lemma written_dict_after_write [simp]:
  "written_dict (after_write W a v h) x = written_dict h x"
  by (cases x) simp_all

lemma map_of_setitem_other:
  "key \<noteq> a \<Longrightarrow> map_of (dict_setitem ds a v) key = map_of ds key"
  by (simp add: dict_setitem_def update_conv')



text \<open>
  A read that does not go through a getter is not changed by storing another name, nor
  by storing the name in other dicts.
\<close>

lemma getattr_other_key:
  assumes "key \<noteq> a" and "\<forall>obj. x = VObject obj \<longrightarrow> \<not> is_property h obj key"
  shows "py_getattr rt (after_write W a v h) x key = py_getattr rt h x key"
  using assms
  by (cases x)
     (auto simp add: instance_getattr_def class_getattr_def is_property_def
                     map_of_setitem_other
           split: prod.splits option.splits class_attr.splits)

lemma getattr_unwritten:
  assumes "\<forall>d. written_dict h x = Some d \<longrightarrow> d \<notin> W"
    and "\<forall>obj. x = VObject obj \<longrightarrow> \<not> is_property h obj key"
  shows "py_getattr rt (after_write W a v h) x key = py_getattr rt h x key"
  using assms
  by (cases x)
     (auto simp add: instance_getattr_def class_getattr_def is_property_def
           split: prod.splits option.splits class_attr.splits)








lemma is_property_after_write [simp]:
  "is_property (after_write W a v h) obj key = is_property h obj key"
  by (simp add: is_property_def)

lemma ordinary_attribute_after_write [simp]:
  "ordinary_attribute (after_write W a v h) obj key = ordinary_attribute h obj key"
  by (simp add: ordinary_attribute_def)












text \<open>
  When \<open>trainer\<close>, \<open>hparams\<close> and \<open>datamodule\<close> are not read through a getter, storing an
  attribute other than \<open>trainer\<close> and \<open>hparams\<close> leaves the way to the holders as it is,
  unless the attribute is \<open>datamodule\<close> and is stored in the trainer.
\<close>

lemma holders_found_alike_by_name:
  assumes "a \<noteq> ''trainer''" and "a \<noteq> ''hparams''"
    and "\<forall>obj. m = VObject obj \<longrightarrow>
           \<not> is_property h obj ''trainer'' \<and> \<not> is_property h obj ''hparams''"
    and "\<forall>obj. trainer_of rt h m = VObject obj \<longrightarrow> \<not> is_property h obj ''datamodule''"
    and "a = ''datamodule'' \<longrightarrow>
           (\<forall>d. written_dict h (trainer_of rt h m) = Some d \<longrightarrow> d \<notin> W)"
  shows "holders_found_alike rt h (after_write W a v h) m"
proof -
  have "py_getattr rt (after_write W a v h) (trainer_of rt h m) ''datamodule''
          = py_getattr rt h (trainer_of rt h m) ''datamodule''"
  proof (cases "a = ''datamodule''")
    case True
    with assms(4,5) show ?thesis by (intro getattr_unwritten) simp_all
  next
    case False
    with assms(4) show ?thesis by (intro getattr_other_key) simp_all
  qed
  moreover have "py_getattr rt (after_write W a v h) m ''trainer'' = py_getattr rt h m ''trainer''"
    using assms(1,3) by (intro getattr_other_key) simp_all
  moreover have "py_getattr rt (after_write W a v h) m ''hparams'' = py_getattr rt h m ''hparams''"
    using assms(2,3) by (intro getattr_other_key) simp_all
  ultimately show ?thesis by (simp add: holders_found_alike_def)
qed





end
